theory Spec2Isabelle
  imports Main
begin

section \<open>Data model of the barcode scanner (src/app.js, class BarcodeScanner)\<close>

text \<open>
  JavaScript strings are modelled as \<open>string\<close>; a character stands for one code unit in
  the Latin-1 range. Times read with \<open>Date.now()\<close> are integers (milliseconds), and
  the numeric settings are integers as well.
\<close>

text \<open>An entry of \<open>this.detectionHistory\<close>: the object pushed by \<open>handleDetection\<close>.\<close>

record detection =
  d_code :: string
  d_format :: string
  d_timestamp :: int

text \<open>The object literal \<open>scanData\<close> built by \<open>processScan\<close>; an entry of \<open>this.scanHistory\<close>.\<close>

record scanData =
  code :: string
  format :: string
  timestamp :: string
  product :: "string option"

record formats =
  UPC :: bool
  EAN :: bool
  Code128 :: bool
  Code39 :: bool
  QR :: bool
  DataMatrix :: bool

record settings =
  audioFeedback :: bool
  autoSearch :: bool
  requireMultipleDetections :: bool
  minDetections :: int
  detectionTimeout :: int
  formats :: formats

text \<open>
  The product object handed to \<open>displayProductInfo\<close>. A property that the object does
  not carry is \<open>None\<close> (or the empty string, which JavaScript treats as absent in the
  same tests). \<open>searchLinks\<close> holds the pairs (name, url).
\<close>

record productData =
  name :: string
  brand :: string
  description :: string
  image_url :: "string option"
  source :: string
  sourceUrl :: string
  categories :: string
  nutritionGrades :: "string option"
  labels :: string
  searchLinks :: "(string \<times> string) list option"

text \<open>
  What the element \<open>productInfo\<close> shows. The card is kept as structured content: the
  product object it was rendered from and the anchors (text, href) of its
  \<open>product-links\<close> block, in document order.
\<close>

datatype display =
    Blank
  | Loading
  | ProductCard productData "(string \<times> string) list"
  | ErrorCard string

text \<open>The result object of the decoding library, as far as \<open>scanLoop\<close> reads it.\<close>

record zxingResult =
  getText :: string
  getBarcodeFormat :: "string option"

text \<open>
  The scanner object together with the parts of the page and of the browser that the
  modelled methods read or write.
  \<^item> \<open>productInfo\<close>, \<open>manualCode\<close>, \<open>manualFormat\<close>: the page elements of these ids;
    \<open>None\<close> when \<open>document.getElementById\<close> finds no such element, otherwise the
    content (respectively the \<open>value\<close>) of the element.
  \<^item> \<open>confirmations\<close>: the calls of \<open>confirmDetection\<close> so far (its console log line).
  \<^item> \<open>decodeAttempts\<close>: the number of calls of \<open>decodeFromImageData\<close> so far;
    \<open>pendingDecodes\<close>: how many of them have not settled yet.
  \<^item> \<open>frameRequests\<close>: the number of calls of \<open>requestAnimationFrame\<close> so far;
    \<open>scheduledFrames\<close>: how many of these callbacks have not run yet.
  \<^item> \<open>pendingLookups\<close>: the codes of the product lookups in flight.
\<close>

record scanner =
  isScanning :: bool
  codeReader :: bool
  detectionHistory :: "detection list"
  lastDetectedCode :: "string option"
  detectionCount :: int
  scanStartTime :: int
  frameCount :: nat
  debugMode :: bool
  debugInterval :: bool
  settings :: settings
  scanHistory :: "scanData list"
  productInfo :: "display option"
  manualCode :: "string option"
  manualFormat :: "string option"
  confirmations :: "(string \<times> string) list"
  decodeAttempts :: nat
  pendingDecodes :: nat
  frameRequests :: nat
  scheduledFrames :: nat
  pendingLookups :: "string list"

section \<open>Construction and settings\<close>

definition defaultSettings :: settings where
  "defaultSettings =
     \<lparr>audioFeedback = True, autoSearch = True, requireMultipleDetections = True,
      minDetections = 2, detectionTimeout = 2000,
      formats = \<lparr>UPC = True, EAN = True, Code128 = True, Code39 = True, QR = True,
                 DataMatrix = True\<rparr>\<rparr>"

text \<open>
  The constructor; its arguments are what \<open>loadSettings()\<close> and \<open>loadHistory()\<close>
  return (\<open>None\<close> for \<open>null\<close>). The page is taken with its result panel and its manual
  entry form present.
\<close>

definition BarcodeScanner :: "settings option \<Rightarrow> scanData list option \<Rightarrow> scanner" where
  "BarcodeScanner loadedSettings loadedHistory =
     \<lparr>isScanning = False, codeReader = False, detectionHistory = [],
      lastDetectedCode = None, detectionCount = 0, scanStartTime = 0, frameCount = 0,
      debugMode = False, debugInterval = False,
      settings = (case loadedSettings of Some st \<Rightarrow> st | None \<Rightarrow> defaultSettings),
      scanHistory = (case loadedHistory of Some h \<Rightarrow> h | None \<Rightarrow> []),
      productInfo = Some Blank, manualCode = Some [], manualFormat = Some ''UPC-A'',
      confirmations = [], decodeAttempts = 0, pendingDecodes = 0, frameRequests = 0,
      scheduledFrames = 0, pendingLookups = []\<rparr>"

text \<open>\<open>element?.checked ?? true\<close> for a checkbox that may be missing from the page.\<close>

definition checkedOrTrue :: "bool option \<Rightarrow> bool" where
  "checkedOrTrue el = (case el of Some b \<Rightarrow> b | None \<Rightarrow> True)"

text \<open>
  \<open>updateSettings\<close>; \<open>checked\<close> maps the id of a checkbox to its state, \<open>None\<close> when
  the page has no element of that id. \<open>saveSettings\<close> only writes to the local storage.
\<close>

definition updateSettings :: "(string \<Rightarrow> bool option) \<Rightarrow> scanner \<Rightarrow> scanner" where
  "updateSettings checked s =
     s\<lparr>settings :=
        \<lparr>audioFeedback = checkedOrTrue (checked ''audioFeedback''),
         autoSearch = checkedOrTrue (checked ''autoSearch''),
         requireMultipleDetections = checkedOrTrue (checked ''requireMultipleDetections''),
         minDetections = 2,
         detectionTimeout = 2000,
         formats =
           \<lparr>UPC = checkedOrTrue (checked ''formatUPC''),
            EAN = checkedOrTrue (checked ''formatEAN''),
            Code128 = checkedOrTrue (checked ''formatCode128''),
            Code39 = checkedOrTrue (checked ''formatCode39''),
            QR = checkedOrTrue (checked ''formatQR''),
            DataMatrix = checkedOrTrue (checked ''formatDataMatrix'')\<rparr>\<rparr>\<rparr>"

section \<open>History and result display\<close>

text \<open>
  \<open>addToHistory\<close>: \<open>unshift\<close>, then \<open>slice(0, 50)\<close> when the array has grown beyond 50.
  \<open>saveHistory\<close> only writes to the local storage.
\<close>

definition addToHistory :: "scanData \<Rightarrow> scanner \<Rightarrow> scanner" where
  "addToHistory scan s =
     (let h = scan # scanHistory s
      in s\<lparr>scanHistory := (if length h > 50 then take 50 h else h)\<rparr>)"

text \<open>\<open>showResults\<close>, as far as the element \<open>productInfo\<close> is concerned.\<close>

definition showResults :: "scanData \<Rightarrow> scanner \<Rightarrow> scanner" where
  "showResults scan s =
     (case productInfo s of
        None \<Rightarrow> s
      | Some _ \<Rightarrow> s\<lparr>productInfo := Some Loading\<rparr>)"

definition displayProductError :: "string \<Rightarrow> scanner \<Rightarrow> scanner" where
  "displayProductError c s =
     (case productInfo s of
        None \<Rightarrow> s
      | Some _ \<Rightarrow> s\<lparr>productInfo := Some (ErrorCard c)\<rparr>)"

text \<open>
  \<open>createFallbackResult\<close>. The browser function \<open>encodeURIComponent\<close> is the
  parameter \<open>enc\<close>.
\<close>

definition createFallbackResult :: "(string \<Rightarrow> string) \<Rightarrow> string \<Rightarrow> productData" where
  "createFallbackResult enc c =
     \<lparr>name = ''Product Code: '' @ c,
      brand = ''Unknown'',
      description = ''Product information not found in our database. Use the search links below to find more details.'',
      image_url = None,
      source = ''Search Links'',
      sourceUrl = ''https://www.google.com/search?q='' @ enc c @ ''+barcode+product'',
      categories = [],
      nutritionGrades = None,
      labels = [],
      searchLinks = Some
        [(''Google Search'', ''https://www.google.com/search?q='' @ enc c @ ''+barcode+product''),
         (''Amazon Search'', ''https://www.amazon.com/s?k='' @ enc c),
         (''UPC Database'', ''https://www.upcitemdb.com/upc/'' @ enc c)]\<rparr>"

text \<open>The anchors that \<open>displayProductInfo\<close> writes into the \<open>product-links\<close> block.\<close>

definition productLinks :: "(string \<Rightarrow> string) \<Rightarrow> productData \<Rightarrow> (string \<times> string) list" where
  "productLinks enc p =
     (if sourceUrl p \<noteq> [] then [(''View Original'', sourceUrl p)] else []) @
     (case searchLinks p of
        Some links \<Rightarrow> links
      | None \<Rightarrow> [(''Search Google'', ''https://www.google.com/search?q='' @ enc (name p))])"

text \<open>
  \<open>displayProductInfo(productData, code)\<close>: returns at once without the element, shows
  the error card for a missing product object, otherwise renders the card and then writes
  \<open>productData.name\<close> into \<open>this.scanHistory[0].product\<close> when the history is not empty.
\<close>

definition displayProductInfo ::
  "(string \<Rightarrow> string) \<Rightarrow> productData option \<Rightarrow> string \<Rightarrow> scanner \<Rightarrow> scanner" where
  "displayProductInfo enc pd c s =
     (case productInfo s of
        None \<Rightarrow> s
      | Some _ \<Rightarrow>
          (case pd of
             None \<Rightarrow> displayProductError c s
           | Some p \<Rightarrow>
               (let s1 = s\<lparr>productInfo := Some (ProductCard p (productLinks enc p))\<rparr>
                in case scanHistory s1 of
                     [] \<Rightarrow> s1
                   | r # rs \<Rightarrow> s1\<lparr>scanHistory := r\<lparr>product := Some (name p)\<rparr> # rs\<rparr>)))"

section \<open>Product lookup\<close>

definition isDigit :: "char \<Rightarrow> bool" where
  "isDigit ch = (48 \<le> (of_char ch :: nat) \<and> (of_char ch :: nat) \<le> 57)"

text \<open>\<open>isValidUPCorEAN\<close>: the regular expression \<open>^\d{8,14}$\<close>.\<close>

definition isValidUPCorEAN :: "string \<Rightarrow> bool" where
  "isValidUPCorEAN c = (8 \<le> length c \<and> length c \<le> 14 \<and> list_all isDigit c)"

text \<open>
  \<open>searchProduct\<close> is asynchronous. For a code of 8 to 14 digits it issues the request of
  \<open>searchOpenFoodFacts\<close> and suspends; \<open>searchProduct\<close> below is the part that runs
  before the suspension, and \<open>searchProduct_resume\<close> the part that runs when the request
  has settled, with \<open>None\<close> for every outcome in which \<open>searchOpenFoodFacts\<close> returns
  \<open>null\<close> (product unknown, HTTP or network failure). For any other code nothing is
  awaited and the fallback card is displayed at once.
\<close>

definition searchProduct :: "(string \<Rightarrow> string) \<Rightarrow> string \<Rightarrow> string \<Rightarrow> scanner \<Rightarrow> scanner" where
  "searchProduct enc c fmt s =
     (if isValidUPCorEAN c then s\<lparr>pendingLookups := pendingLookups s @ [c]\<rparr>
      else displayProductInfo enc (Some (createFallbackResult enc c)) c s)"

definition searchProduct_resume ::
  "(string \<Rightarrow> string) \<Rightarrow> productData option \<Rightarrow> string \<Rightarrow> scanner \<Rightarrow> scanner" where
  "searchProduct_resume enc found c s =
     (let productData = (case found of Some p \<Rightarrow> p | None \<Rightarrow> createFallbackResult enc c)
      in displayProductInfo enc (Some productData) c
           (s\<lparr>pendingLookups := remove1 c (pendingLookups s)\<rparr>))"

text \<open>
  \<open>processScan(code, format)\<close>; \<open>stamp\<close> is the value of \<open>new Date().toISOString()\<close>.
\<close>

definition processScan ::
  "(string \<Rightarrow> string) \<Rightarrow> string \<Rightarrow> string \<Rightarrow> string \<Rightarrow> scanner \<Rightarrow> scanner" where
  "processScan enc stamp c fmt s =
     (let scan = \<lparr>code = c, format = fmt, timestamp = stamp, product = None\<rparr>;
          s1 = showResults scan (addToHistory scan s)
      in if autoSearch (settings s1) then searchProduct enc c fmt s1 else s1)"

section \<open>Scan lifecycle and detection confirmation\<close>

text \<open>\<open>stopScanning\<close>: nothing when not scanning; otherwise clears the flag and the debug timer.\<close>

definition stopScanning :: "scanner \<Rightarrow> scanner" where
  "stopScanning s =
     (if \<not> isScanning s then s
      else s\<lparr>isScanning := False, debugInterval := False\<rparr>)"

text \<open>\<open>confirmDetection\<close>; the beep and the visual feedback change nothing modelled here.\<close>

definition confirmDetection ::
  "(string \<Rightarrow> string) \<Rightarrow> string \<Rightarrow> string \<Rightarrow> string \<Rightarrow> scanner \<Rightarrow> scanner" where
  "confirmDetection enc stamp c fmt s =
     processScan enc stamp c fmt
       (stopScanning (s\<lparr>confirmations := confirmations s @ [(c, fmt)]\<rparr>))"

text \<open>The format string \<open>handleDetection\<close> takes from the result object.\<close>

definition formatOf :: "zxingResult \<Rightarrow> string" where
  "formatOf result = (case getBarcodeFormat result of Some f \<Rightarrow> f | None \<Rightarrow> ''Unknown'')"

text \<open>
  \<open>handleDetection(result)\<close>. The method reads the clock twice: \<open>t1\<close> is the
  \<open>Date.now()\<close> stored in the pushed entry, \<open>t2\<close> the \<open>Date.now()\<close> from which the
  cutoff is computed.
\<close>

definition handleDetection ::
  "(string \<Rightarrow> string) \<Rightarrow> int \<Rightarrow> int \<Rightarrow> string \<Rightarrow> zxingResult \<Rightarrow> scanner \<Rightarrow> scanner" where
  "handleDetection enc t1 t2 stamp result s =
     (let c = getText result;
          fmt = formatOf result;
          s1 = s\<lparr>lastDetectedCode := Some c\<rparr>;
          s2 = s1\<lparr>detectionHistory :=
                   detectionHistory s1 @ [\<lparr>d_code = c, d_format = fmt, d_timestamp = t1\<rparr>]\<rparr>;
          cutoff = t2 - detectionTimeout (settings s2);
          s3 = s2\<lparr>detectionHistory := filter (\<lambda>d. d_timestamp d > cutoff) (detectionHistory s2)\<rparr>;
          codeMatches = filter (\<lambda>d. d_code d = c) (detectionHistory s3)
      in if requireMultipleDetections (settings s3) then
           (if int (length codeMatches) \<ge> minDetections (settings s3)
            then confirmDetection enc stamp c fmt s3
            else s3)
         else confirmDetection enc stamp c fmt s3)"

text \<open>
  What one run of \<open>scanLoop\<close> finds on the page: no video or canvas element, a drawing
  operation on the canvas that throws, a canvas whose pixels cannot be read for the
  decoder (\<open>getImageData\<close> throws inside the inner \<open>try\<close>), or a frame ready for
  decoding.
\<close>

datatype frame = NoElements | DrawError | NoImageData | FrameDrawn

definition requestFrame :: "scanner \<Rightarrow> scanner" where
  "requestFrame s =
     s\<lparr>frameRequests := frameRequests s + 1, scheduledFrames := scheduledFrames s + 1\<rparr>"

text \<open>The end of the loop body: count the frame, and go on only while scanning.\<close>

definition scanLoop_continue :: "scanner \<Rightarrow> scanner" where
  "scanLoop_continue s =
     (let s1 = s\<lparr>frameCount := frameCount s + 1\<rparr>
      in if isScanning s1 then requestFrame s1 else s1)"

text \<open>
  \<open>scanLoop\<close> is asynchronous: with a code reader it calls \<open>decodeFromImageData\<close> and
  suspends. \<open>scanLoop\<close> below is the part that runs before the suspension, and
  \<open>scanLoop_resume\<close> the part that runs when the decoding has settled, with \<open>None\<close> for
  a decoding that threw or returned nothing. The outer \<open>catch\<close> is reached from the
  canvas operations, where the flag is still the one tested on entry.
\<close>

definition scanLoop :: "frame \<Rightarrow> scanner \<Rightarrow> scanner" where
  "scanLoop fr s =
     (if \<not> isScanning s then s
      else case fr of
             NoElements \<Rightarrow> s
           | DrawError \<Rightarrow> (if isScanning s then requestFrame s else s)
           | NoImageData \<Rightarrow> scanLoop_continue s
           | FrameDrawn \<Rightarrow>
               (if codeReader s
                then s\<lparr>decodeAttempts := decodeAttempts s + 1,
                       pendingDecodes := pendingDecodes s + 1\<rparr>
                else scanLoop_continue s))"

definition scanLoop_resume ::
  "(string \<Rightarrow> string) \<Rightarrow> int \<Rightarrow> int \<Rightarrow> string \<Rightarrow> zxingResult option \<Rightarrow> scanner \<Rightarrow> scanner" where
  "scanLoop_resume enc t1 t2 stamp decoded s =
     (case decoded of
        Some result \<Rightarrow>
          (if getText result \<noteq> [] then handleDetection enc t1 t2 stamp result s
           else scanLoop_continue s)
      | None \<Rightarrow> scanLoop_continue s)"

text \<open>
  \<open>startScanning\<close>; \<open>now\<close> is its \<open>Date.now()\<close>, \<open>video\<close> tells whether the video
  element exists and has a stream, \<open>fr\<close> is what the first run of \<open>scanLoop\<close> finds.
\<close>

definition startScanning :: "int \<Rightarrow> bool \<Rightarrow> frame \<Rightarrow> scanner \<Rightarrow> scanner" where
  "startScanning now video fr s =
     (if isScanning s then s
      else
        (let s1 = s\<lparr>isScanning := True, detectionHistory := [], detectionCount := 0,
                    scanStartTime := now, frameCount := 0\<rparr>
         in if \<not> video then stopScanning s1
            else
              (let s2 = scanLoop fr s1
               in if debugMode s2 then s2\<lparr>debugInterval := True\<rparr> else s2)))"

section \<open>Manual entry\<close>

text \<open>
  \<open>String.prototype.trim\<close> removes white space and line terminators from both ends;
  these are the ones among the Latin-1 code units.
\<close>

definition isWhiteSpace :: "char \<Rightarrow> bool" where
  "isWhiteSpace ch = ((of_char ch :: nat) \<in> {9, 10, 11, 12, 13, 32, 160})"

definition trim :: "string \<Rightarrow> string" where
  "trim str = rev (dropWhile isWhiteSpace (rev (dropWhile isWhiteSpace str)))"

datatype error = ElementsNotFound | EmptyCodeError

text \<open>
  \<open>submitManualCode\<close> reads the code and the format from the manual entry form. The
  first component of the result is the failure it reports, if any: the console error for
  a missing form element, the alert for a code that is blank after trimming.
\<close>

definition submitManualCode ::
  "(string \<Rightarrow> string) \<Rightarrow> string \<Rightarrow> scanner \<Rightarrow> error option \<times> scanner" where
  "submitManualCode enc stamp s =
     (case (manualCode s, manualFormat s) of
        (Some codeInput, Some formatSelect) \<Rightarrow>
          (let c = trim codeInput; fmt = formatSelect
           in if c = [] then (Some EmptyCodeError, s)
              else
                (let s1 = processScan enc stamp c fmt s
                 in (None, s1\<lparr>manualCode := Some [], manualFormat := Some ''UPC-A''\<rparr>)))
      | _ \<Rightarrow> (Some ElementsNotFound, s))"

section \<open>The events of a scanning session\<close>

text \<open>
  Between two runs of the methods above the browser delivers one of these: a scheduled
  animation frame callback, the settling of a pending decoding (with its result, the two
  clock readings of \<open>handleDetection\<close> and the time stamp of \<open>processScan\<close>), or a click
  on the stop button. A callback or a settling that nothing is waiting for does not
  occur, so the step leaves the scanner as it is.
\<close>

datatype event =
    AnimationFrame frame
  | DecodeSettled "zxingResult option" int int string
  | StopClicked

fun step :: "(string \<Rightarrow> string) \<Rightarrow> event \<Rightarrow> scanner \<Rightarrow> scanner" where
  "step enc (AnimationFrame fr) s =
     (if scheduledFrames s = 0 then s
      else scanLoop fr (s\<lparr>scheduledFrames := scheduledFrames s - 1\<rparr>))"
| "step enc (DecodeSettled decoded t1 t2 stamp) s =
     (if pendingDecodes s = 0 then s
      else scanLoop_resume enc t1 t2 stamp decoded (s\<lparr>pendingDecodes := pendingDecodes s - 1\<rparr>))"
| "step enc StopClicked s = stopScanning s"

fun run :: "(string \<Rightarrow> string) \<Rightarrow> event list \<Rightarrow> scanner \<Rightarrow> scanner" where
  "run enc [] s = s"
| "run enc (e # es) s = run enc es (step enc e s)"

section \<open>Settings update\<close>

text \<open>
  Claim C10. Whatever the checkboxes show and whatever settings the scanner held before,
  after \<open>updateSettings\<close> the settings have \<open>minDetections = 2\<close> and
  \<open>detectionTimeout = 2000\<close>: the update writes these two constants.
\<close>

theorem updateSettings_fixed_thresholds:
  "minDetections (settings (updateSettings checked s)) = 2 \<and>
   detectionTimeout (settings (updateSettings checked s)) = 2000"
  by (simp add: updateSettings_def)

section \<open>The bounded history\<close>

lemma addToHistory_scanHistory:
  "scanHistory (addToHistory r s) = take 50 (r # scanHistory s)"
  by (simp add: addToHistory_def Let_def)

lemma fold_addToHistory_scanHistory:
  "rs \<noteq> [] \<Longrightarrow> scanHistory (fold addToHistory rs s) = take 50 (rev rs @ scanHistory s)"
proof (induction rs arbitrary: s)
  case Nil
  then show ?case by simp
next
  case (Cons r rs)
  show ?case
  proof (cases "rs = []")
    case True
    then show ?thesis by (simp add: addToHistory_scanHistory)
  next
    case False
    then have "scanHistory (fold addToHistory rs (addToHistory r s)) =
        take 50 (rev rs @ scanHistory (addToHistory r s))"
      by (rule Cons.IH)
    also have "\<dots> = take 50 (rev rs @ r # scanHistory s)"
      by (simp add: addToHistory_scanHistory min_def take_Cons')
    finally show ?thesis by simp
  qed
qed

lemma take_50_full: "length h = 50 \<Longrightarrow> take 50 (r # h) = r # butlast h"
  by (simp add: take_Cons' butlast_conv_take)

text \<open>
  Claim C4. After \<open>addToHistory\<close> the history has at most 50 entries, the inserted
  record is its head and the older records follow in their order; inserting into a
  history of 50 drops its last (oldest) record. After any sequence of insertions the
  history is the most recent 50 records, most recent first.
\<close>

theorem addToHistory_capacity:
  "length (scanHistory (addToHistory r s)) \<le> 50
   \<and> hd (scanHistory (addToHistory r s)) = r
   \<and> scanHistory (addToHistory r s) = take 50 (r # scanHistory s)
   \<and> (length (scanHistory s) = 50 \<longrightarrow>
        scanHistory (addToHistory r s) = r # butlast (scanHistory s))
   \<and> (rs \<noteq> [] \<or> length (scanHistory s) \<le> 50 \<longrightarrow>
        scanHistory (fold addToHistory rs s) = take 50 (rev rs @ scanHistory s)
        \<and> length (scanHistory (fold addToHistory rs s)) \<le> 50)"
proof -
  have eq: "scanHistory (addToHistory r s) = take 50 (r # scanHistory s)"
    by (rule addToHistory_scanHistory)
  have len: "length (scanHistory (addToHistory r s)) \<le> 50"
    by (simp add: eq)
  have hd: "hd (scanHistory (addToHistory r s)) = r"
    by (simp add: eq take_Cons')
  have full: "length (scanHistory s) = 50 \<longrightarrow>
      scanHistory (addToHistory r s) = r # butlast (scanHistory s)"
    using take_50_full [of "scanHistory s" r] by (simp only: eq) blast
  have seq: "rs \<noteq> [] \<or> length (scanHistory s) \<le> 50 \<longrightarrow>
      scanHistory (fold addToHistory rs s) = take 50 (rev rs @ scanHistory s)
      \<and> length (scanHistory (fold addToHistory rs s)) \<le> 50"
  proof (cases "rs = []")
    case True
    then show ?thesis by simp
  next
    case False
    then show ?thesis by (simp add: fold_addToHistory_scanHistory)
  qed
  from len hd eq full seq show ?thesis by blast
qed

theorem addToHistory_capacity_witness:
  "length (scanHistory (BarcodeScanner None (Some (replicate 50
      \<lparr>code = ''0'', format = ''UPC-A'', timestamp = ''t0'', product = None\<rparr>)))) = 50
   \<and> scanHistory (addToHistory \<lparr>code = ''1'', format = ''QR'', timestamp = ''t1'', product = None\<rparr>
        (BarcodeScanner None (Some (replicate 50
           \<lparr>code = ''0'', format = ''UPC-A'', timestamp = ''t0'', product = None\<rparr>)))) =
      \<lparr>code = ''1'', format = ''QR'', timestamp = ''t1'', product = None\<rparr> #
        butlast (scanHistory (BarcodeScanner None (Some (replicate 50
           \<lparr>code = ''0'', format = ''UPC-A'', timestamp = ''t0'', product = None\<rparr>))))
   \<and> length (scanHistory (fold addToHistory
        [\<lparr>code = ''1'', format = ''QR'', timestamp = ''t1'', product = None\<rparr>]
        (BarcodeScanner None (Some (replicate 50
           \<lparr>code = ''0'', format = ''UPC-A'', timestamp = ''t0'', product = None\<rparr>))))) \<le> 50"
proof -
  let ?r0 = "\<lparr>code = ''0'', format = ''UPC-A'', timestamp = ''t0'', product = None\<rparr>"
  let ?r1 = "\<lparr>code = ''1'', format = ''QR'', timestamp = ''t1'', product = None\<rparr>"
  let ?s = "BarcodeScanner None (Some (replicate 50 ?r0))"
  have full: "length (scanHistory ?s) = 50"
    by (simp add: BarcodeScanner_def)
  have some: "[?r1] \<noteq> [] \<or> length (scanHistory ?s) \<le> 50"
    by simp
  from full some addToHistory_capacity [of ?r1 ?s "[?r1]"] show ?thesis
    by blast
qed

section \<open>What the methods leave unchanged\<close>

lemma processScan_frame:
  "processScan enc stamp c fmt s =
     s\<lparr>scanHistory := scanHistory (processScan enc stamp c fmt s),
       productInfo := productInfo (processScan enc stamp c fmt s),
       pendingLookups := pendingLookups (processScan enc stamp c fmt s)\<rparr>"
  by (simp add: processScan_def searchProduct_def displayProductInfo_def displayProductError_def
      showResults_def addToHistory_def Let_def
      split: option.splits list.splits)

lemma processScan_keeps:
  "detectionHistory (processScan enc stamp c fmt s) = detectionHistory s"
  "settings (processScan enc stamp c fmt s) = settings s"
  "isScanning (processScan enc stamp c fmt s) = isScanning s"
  "confirmations (processScan enc stamp c fmt s) = confirmations s"
  "decodeAttempts (processScan enc stamp c fmt s) = decodeAttempts s"
  "frameRequests (processScan enc stamp c fmt s) = frameRequests s"
  by (subst processScan_frame, simp)+

lemma confirmDetection_keeps:
  "detectionHistory (confirmDetection enc stamp c fmt s) = detectionHistory s"
  "settings (confirmDetection enc stamp c fmt s) = settings s"
  "isScanning (confirmDetection enc stamp c fmt s) = False"
  "confirmations (confirmDetection enc stamp c fmt s) = confirmations s @ [(c, fmt)]"
  "decodeAttempts (confirmDetection enc stamp c fmt s) = decodeAttempts s"
  "frameRequests (confirmDetection enc stamp c fmt s) = frameRequests s"
  by (simp_all add: confirmDetection_def processScan_keeps stopScanning_def)

lemma prune_filter:
  "filter (\<lambda>d. t2 - T < d_timestamp d) xs = filter (\<lambda>d. t2 - d_timestamp d < (T::int)) xs"
  by (rule filter_cong) auto

lemma handleDetection_detectionHistory:
  "detectionHistory (handleDetection enc t1 t2 stamp result s) =
     filter (\<lambda>d. t2 - d_timestamp d < detectionTimeout (settings s))
        (detectionHistory s @
         [\<lparr>d_code = getText result, d_format = formatOf result, d_timestamp = t1\<rparr>])"
  by (simp add: handleDetection_def Let_def confirmDetection_keeps prune_filter del: filter_append)

lemma handleDetection_settings:
  "settings (handleDetection enc t1 t2 stamp result s) = settings s"
  by (simp add: handleDetection_def Let_def confirmDetection_keeps)

lemma handleDetection_confirmations:
  "confirmations (handleDetection enc t1 t2 stamp result s) =
     (if \<not> requireMultipleDetections (settings s) \<or>
         minDetections (settings s) \<le>
           int (length (filter (\<lambda>d. d_code d = getText result)
                  (detectionHistory (handleDetection enc t1 t2 stamp result s))))
      then confirmations s @ [(getText result, formatOf result)]
      else confirmations s)"
  unfolding handleDetection_detectionHistory
  by (simp add: handleDetection_def Let_def confirmDetection_keeps prune_filter del: filter_append filter_filter)

lemma handleDetection_isScanning:
  "isScanning (handleDetection enc t1 t2 stamp result s) =
     (isScanning s \<and> confirmations (handleDetection enc t1 t2 stamp result s) = confirmations s)"
  by (simp add: handleDetection_def Let_def confirmDetection_keeps)

lemma scanLoop_keeps:
  "detectionHistory (scanLoop fr s) = detectionHistory s"
  "settings (scanLoop fr s) = settings s"
  "confirmations (scanLoop fr s) = confirmations s"
  "debugMode (scanLoop fr s) = debugMode s"
  by (simp_all add: scanLoop_def scanLoop_continue_def requestFrame_def Let_def split: frame.splits)

lemma startScanning_keeps:
  "settings (startScanning now video fr s) = settings s"
  "confirmations (startScanning now video fr s) = confirmations s"
  by (simp_all add: startScanning_def Let_def scanLoop_keeps stopScanning_def)

lemma startScanning_resets_window:
  "\<not> isScanning s \<Longrightarrow> detectionHistory (startScanning now video fr s) = []"
  by (simp add: startScanning_def Let_def scanLoop_keeps stopScanning_def)

section \<open>The detection window and confirmation\<close>

text \<open>
  Claim C3. After \<open>handleDetection\<close> has run with the cutoff computed from the time
  \<open>t2\<close>, every entry left in the detection window satisfies
  \<open>t2 - timestamp < detectionTimeout\<close>, that is \<open>timestamp > t2 - detectionTimeout\<close>.
  The matching entries are counted in this pruned window, and a confirmation does not
  change it.
\<close>

theorem handleDetection_window_recent:
  "\<forall>d \<in> set (detectionHistory (handleDetection enc t1 t2 stamp result s)).
     t2 - d_timestamp d < detectionTimeout (settings s) \<and>
     d_timestamp d > t2 - detectionTimeout (settings s)"
  by (auto simp add: handleDetection_detectionHistory)

theorem handleDetection_window_recent_witness:
  "\<lparr>d_code = ''X'', d_format = ''EAN_13'', d_timestamp = 4000\<rparr> \<in> set (detectionHistory
      (handleDetection (\<lambda>u. u) 5000 5000 ''2026-01-01T00:00:05.000Z''
         \<lparr>getText = ''X'', getBarcodeFormat = Some ''EAN_13''\<rparr>
         ((BarcodeScanner None None)\<lparr>detectionHistory :=
            [\<lparr>d_code = ''X'', d_format = ''EAN_13'', d_timestamp = 1000\<rparr>,
             \<lparr>d_code = ''X'', d_format = ''EAN_13'', d_timestamp = 4000\<rparr>]\<rparr>)))
   \<and> 5000 - d_timestamp \<lparr>d_code = ''X'', d_format = ''EAN_13'', d_timestamp = 4000\<rparr>
        < detectionTimeout (settings ((BarcodeScanner None None)\<lparr>detectionHistory :=
            [\<lparr>d_code = ''X'', d_format = ''EAN_13'', d_timestamp = 1000\<rparr>,
             \<lparr>d_code = ''X'', d_format = ''EAN_13'', d_timestamp = 4000\<rparr>]\<rparr>))
   \<and> \<lparr>d_code = ''X'', d_format = ''EAN_13'', d_timestamp = 1000\<rparr> \<notin> set (detectionHistory
      (handleDetection (\<lambda>u. u) 5000 5000 ''2026-01-01T00:00:05.000Z''
         \<lparr>getText = ''X'', getBarcodeFormat = Some ''EAN_13''\<rparr>
         ((BarcodeScanner None None)\<lparr>detectionHistory :=
            [\<lparr>d_code = ''X'', d_format = ''EAN_13'', d_timestamp = 1000\<rparr>,
             \<lparr>d_code = ''X'', d_format = ''EAN_13'', d_timestamp = 4000\<rparr>]\<rparr>)))"
proof -
  let ?s = "(BarcodeScanner None None)\<lparr>detectionHistory :=
            [\<lparr>d_code = ''X'', d_format = ''EAN_13'', d_timestamp = 1000\<rparr>,
             \<lparr>d_code = ''X'', d_format = ''EAN_13'', d_timestamp = 4000\<rparr>]\<rparr>"
  let ?s' = "handleDetection (\<lambda>u. u) 5000 5000 ''2026-01-01T00:00:05.000Z''
         \<lparr>getText = ''X'', getBarcodeFormat = Some ''EAN_13''\<rparr> ?s"
  have window: "detectionHistory ?s' =
      [\<lparr>d_code = ''X'', d_format = ''EAN_13'', d_timestamp = 4000\<rparr>,
       \<lparr>d_code = ''X'', d_format = ''EAN_13'', d_timestamp = 5000\<rparr>]"
    by (simp add: handleDetection_def Let_def confirmDetection_keeps BarcodeScanner_def
        defaultSettings_def formatOf_def)
  have kept: "\<lparr>d_code = ''X'', d_format = ''EAN_13'', d_timestamp = 4000\<rparr> \<in> set (detectionHistory ?s')"
    by (simp add: window)
  have dropped: "\<lparr>d_code = ''X'', d_format = ''EAN_13'', d_timestamp = 1000\<rparr> \<notin> set (detectionHistory ?s')"
    by (simp add: window)
  from handleDetection_window_recent [of "\<lambda>u. u" 5000 5000 "''2026-01-01T00:00:05.000Z''"
      "\<lparr>getText = ''X'', getBarcodeFormat = Some ''EAN_13''\<rparr>" ?s] kept
  have "5000 - d_timestamp \<lparr>d_code = ''X'', d_format = ''EAN_13'', d_timestamp = 4000\<rparr>
        < detectionTimeout (settings ?s)"
    by blast
  with kept dropped show ?thesis by blast
qed

text \<open>
  Claim C1. \<open>handleDetection\<close> calls \<open>confirmDetection\<close> (once, for the code and format
  just observed) exactly when \<open>requireMultipleDetections\<close> is off or the pruned window
  holds at least \<open>minDetections\<close> entries with the observed code; otherwise it confirms
  nothing. From an empty window with \<open>requireMultipleDetections\<close> on and
  \<open>minDetections = 2\<close>, one observation does not confirm, and a second observation of
  the same code less than \<open>detectionTimeout\<close> later confirms, once. With
  \<open>requireMultipleDetections\<close> off every observation confirms at once.
\<close>

theorem handleDetection_confirms_iff:
  "confirmations (handleDetection enc t1 t2 stamp result s) =
     (if \<not> requireMultipleDetections (settings s) \<or>
         minDetections (settings s) \<le>
           int (length (filter (\<lambda>d. d_code d = getText result)
                  (filter (\<lambda>d. t2 - d_timestamp d < detectionTimeout (settings s))
                     (detectionHistory s @
                      [\<lparr>d_code = getText result, d_format = formatOf result,
                        d_timestamp = t1\<rparr>]))))
      then confirmations s @ [(getText result, formatOf result)]
      else confirmations s)
   \<and> (detectionHistory s = [] \<and> requireMultipleDetections (settings s) \<and>
        minDetections (settings s) = 2 \<longrightarrow>
        confirmations (handleDetection enc t1 t2 stamp result s) = confirmations s)
   \<and> (detectionHistory s = [] \<and> requireMultipleDetections (settings s) \<and>
        minDetections (settings s) = 2 \<and> 0 < detectionTimeout (settings s) \<and>
        now' - now < detectionTimeout (settings s) \<and> getText result' = getText result \<longrightarrow>
        confirmations (handleDetection enc now' now' stamp' result'
                         (handleDetection enc now now stamp result s)) =
          confirmations s @ [(getText result', formatOf result')])
   \<and> (\<not> requireMultipleDetections (settings s) \<longrightarrow>
        confirmations (handleDetection enc t1 t2 stamp result s) =
          confirmations s @ [(getText result, formatOf result)])"
proof -
  have general: "confirmations (handleDetection enc t1 t2 stamp result s) =
     (if \<not> requireMultipleDetections (settings s) \<or>
         minDetections (settings s) \<le>
           int (length (filter (\<lambda>d. d_code d = getText result)
                  (filter (\<lambda>d. t2 - d_timestamp d < detectionTimeout (settings s))
                     (detectionHistory s @
                      [\<lparr>d_code = getText result, d_format = formatOf result,
                        d_timestamp = t1\<rparr>]))))
      then confirmations s @ [(getText result, formatOf result)]
      else confirmations s)"
    using handleDetection_confirmations [of enc t1 t2 stamp result s]
    by (simp only: handleDetection_detectionHistory)
  have single: "detectionHistory s = [] \<and> requireMultipleDetections (settings s) \<and>
        minDetections (settings s) = 2 \<longrightarrow>
        confirmations (handleDetection enc t1 t2 stamp result s) = confirmations s"
    by (simp add: general)
  have twice: "detectionHistory s = [] \<and> requireMultipleDetections (settings s) \<and>
        minDetections (settings s) = 2 \<and> 0 < detectionTimeout (settings s) \<and>
        now' - now < detectionTimeout (settings s) \<and> getText result' = getText result \<longrightarrow>
        confirmations (handleDetection enc now' now' stamp' result'
                         (handleDetection enc now now stamp result s)) =
          confirmations s @ [(getText result', formatOf result')]"
    by (simp add: handleDetection_confirmations handleDetection_detectionHistory
        handleDetection_settings)
  have immediate: "\<not> requireMultipleDetections (settings s) \<longrightarrow>
        confirmations (handleDetection enc t1 t2 stamp result s) =
          confirmations s @ [(getText result, formatOf result)]"
    by (simp add: general)
  from general single twice immediate show ?thesis by blast
qed

theorem handleDetection_confirms_iff_witness:
  "detectionHistory (BarcodeScanner None None) = []
   \<and> requireMultipleDetections (settings (BarcodeScanner None None))
   \<and> minDetections (settings (BarcodeScanner None None)) = 2
   \<and> 0 < detectionTimeout (settings (BarcodeScanner None None))
   \<and> 1500 - 1000 < detectionTimeout (settings (BarcodeScanner None None))
   \<and> confirmations (handleDetection (\<lambda>u. u) 1000 1000 ''2026-01-01T00:00:01.000Z''
         \<lparr>getText = ''5901234123457'', getBarcodeFormat = Some ''EAN_13''\<rparr>
         (BarcodeScanner None None)) = confirmations (BarcodeScanner None None)
   \<and> confirmations (handleDetection (\<lambda>u. u) 1500 1500 ''2026-01-01T00:00:01.500Z''
         \<lparr>getText = ''5901234123457'', getBarcodeFormat = Some ''EAN_13''\<rparr>
         (handleDetection (\<lambda>u. u) 1000 1000 ''2026-01-01T00:00:01.000Z''
            \<lparr>getText = ''5901234123457'', getBarcodeFormat = Some ''EAN_13''\<rparr>
            (BarcodeScanner None None))) =
       confirmations (BarcodeScanner None None) @ [(''5901234123457'', ''EAN_13'')]"
proof -
  let ?s = "BarcodeScanner None None"
  let ?r = "\<lparr>getText = ''5901234123457'', getBarcodeFormat = Some ''EAN_13''\<rparr>"
  have h: "detectionHistory ?s = []" "requireMultipleDetections (settings ?s)"
    "minDetections (settings ?s) = 2" "0 < detectionTimeout (settings ?s)"
    "1500 - 1000 < detectionTimeout (settings ?s)"
    by (simp_all add: BarcodeScanner_def defaultSettings_def)
  have f: "formatOf ?r = ''EAN_13''" "getText ?r = ''5901234123457''"
    by (simp_all add: formatOf_def)
  note inst = handleDetection_confirms_iff [of "\<lambda>u. u" 1000 1000 "''2026-01-01T00:00:01.000Z''" ?r ?s
      1500 1000 ?r "''2026-01-01T00:00:01.500Z''"]
  from inst h have first: "confirmations (handleDetection (\<lambda>u. u) 1000 1000
      ''2026-01-01T00:00:01.000Z'' ?r ?s) = confirmations ?s"
    by blast
  from inst h have second: "confirmations (handleDetection (\<lambda>u. u) 1500 1500
      ''2026-01-01T00:00:01.500Z'' ?r (handleDetection (\<lambda>u. u) 1000 1000
      ''2026-01-01T00:00:01.000Z'' ?r ?s)) = confirmations ?s @ [(getText ?r, formatOf ?r)]"
    by blast
  from h first second f show ?thesis by simp
qed

text \<open>
  Claim C2 as stated fails: from the freshly constructed scanner, the second observation
  of a code confirms it, and the detection window then still holds both entries.
\<close>

theorem confirm_keeps_window_counterexample:
  "confirmations (handleDetection (\<lambda>u. u) 1500 1500 ''2026-01-01T00:00:01.500Z''
         \<lparr>getText = ''5901234123457'', getBarcodeFormat = Some ''EAN_13''\<rparr>
         (handleDetection (\<lambda>u. u) 1000 1000 ''2026-01-01T00:00:01.000Z''
            \<lparr>getText = ''5901234123457'', getBarcodeFormat = Some ''EAN_13''\<rparr>
            (BarcodeScanner None None))) = [(''5901234123457'', ''EAN_13'')]
   \<and> detectionHistory (handleDetection (\<lambda>u. u) 1500 1500 ''2026-01-01T00:00:01.500Z''
         \<lparr>getText = ''5901234123457'', getBarcodeFormat = Some ''EAN_13''\<rparr>
         (handleDetection (\<lambda>u. u) 1000 1000 ''2026-01-01T00:00:01.000Z''
            \<lparr>getText = ''5901234123457'', getBarcodeFormat = Some ''EAN_13''\<rparr>
            (BarcodeScanner None None))) =
       [\<lparr>d_code = ''5901234123457'', d_format = ''EAN_13'', d_timestamp = 1000\<rparr>,
        \<lparr>d_code = ''5901234123457'', d_format = ''EAN_13'', d_timestamp = 1500\<rparr>]"
  by (simp add: handleDetection_confirmations handleDetection_detectionHistory
      handleDetection_settings BarcodeScanner_def defaultSettings_def formatOf_def)

text \<open>
  Claim C2, amended. A confirmation leaves the detection window as pruned (it still holds
  the entry just observed when that is within the timeout) and stops the scanning. The
  window is emptied by the next \<open>startScanning\<close>, which then always runs its reset; so
  with \<open>requireMultipleDetections\<close> on and \<open>minDetections\<close> above 1 the first
  observation after the restart confirms nothing.
\<close>

theorem confirm_window_cleared_on_restart:
  "confirmations (handleDetection enc t1 t2 stamp result s) \<noteq> confirmations s \<longrightarrow>
     detectionHistory (handleDetection enc t1 t2 stamp result s) =
       filter (\<lambda>d. t2 - d_timestamp d < detectionTimeout (settings s))
         (detectionHistory s @
          [\<lparr>d_code = getText result, d_format = formatOf result, d_timestamp = t1\<rparr>])
     \<and> (t2 - t1 < detectionTimeout (settings s) \<longrightarrow>
          detectionHistory (handleDetection enc t1 t2 stamp result s) \<noteq> [])
     \<and> \<not> isScanning (handleDetection enc t1 t2 stamp result s)
     \<and> detectionHistory (startScanning now video fr
          (handleDetection enc t1 t2 stamp result s)) = []
     \<and> (requireMultipleDetections (settings s) \<and> 1 < minDetections (settings s) \<longrightarrow>
          confirmations (handleDetection enc t1' t2' stamp' result'
             (startScanning now video fr (handleDetection enc t1 t2 stamp result s))) =
          confirmations (handleDetection enc t1 t2 stamp result s))"
proof
  let ?s' = "handleDetection enc t1 t2 stamp result s"
  assume confirmed: "confirmations ?s' \<noteq> confirmations s"
  have window: "detectionHistory ?s' =
       filter (\<lambda>d. t2 - d_timestamp d < detectionTimeout (settings s))
         (detectionHistory s @
          [\<lparr>d_code = getText result, d_format = formatOf result, d_timestamp = t1\<rparr>])"
    by (rule handleDetection_detectionHistory)
  have nonempty: "t2 - t1 < detectionTimeout (settings s) \<longrightarrow> detectionHistory ?s' \<noteq> []"
    by (simp add: window)
  have stopped: "\<not> isScanning ?s'"
    using confirmed by (simp add: handleDetection_isScanning)
  then have cleared: "detectionHistory (startScanning now video fr ?s') = []"
    by (rule startScanning_resets_window)
  have again: "requireMultipleDetections (settings s) \<and> 1 < minDetections (settings s) \<longrightarrow>
      confirmations (handleDetection enc t1' t2' stamp' result' (startScanning now video fr ?s')) =
      confirmations ?s'"
    by (simp add: handleDetection_confirmations [of _ _ _ _ _ "startScanning now video fr ?s'"]
        handleDetection_detectionHistory [of _ _ _ _ _ "startScanning now video fr ?s'"]
        cleared startScanning_keeps handleDetection_settings)
  from window nonempty stopped cleared again
  show "detectionHistory ?s' =
       filter (\<lambda>d. t2 - d_timestamp d < detectionTimeout (settings s))
         (detectionHistory s @
          [\<lparr>d_code = getText result, d_format = formatOf result, d_timestamp = t1\<rparr>])
     \<and> (t2 - t1 < detectionTimeout (settings s) \<longrightarrow> detectionHistory ?s' \<noteq> [])
     \<and> \<not> isScanning ?s'
     \<and> detectionHistory (startScanning now video fr ?s') = []
     \<and> (requireMultipleDetections (settings s) \<and> 1 < minDetections (settings s) \<longrightarrow>
          confirmations (handleDetection enc t1' t2' stamp' result'
             (startScanning now video fr ?s')) = confirmations ?s')"
    by blast
qed

theorem confirm_window_cleared_on_restart_witness:
  "confirmations (handleDetection (\<lambda>u. u) 1500 1500 ''2026-01-01T00:00:01.500Z''
         \<lparr>getText = ''5901234123457'', getBarcodeFormat = Some ''EAN_13''\<rparr>
         (handleDetection (\<lambda>u. u) 1000 1000 ''2026-01-01T00:00:01.000Z''
            \<lparr>getText = ''5901234123457'', getBarcodeFormat = Some ''EAN_13''\<rparr>
            ((BarcodeScanner None None)\<lparr>isScanning := True\<rparr>))) \<noteq>
    confirmations (handleDetection (\<lambda>u. u) 1000 1000 ''2026-01-01T00:00:01.000Z''
            \<lparr>getText = ''5901234123457'', getBarcodeFormat = Some ''EAN_13''\<rparr>
            ((BarcodeScanner None None)\<lparr>isScanning := True\<rparr>))
   \<and> \<not> isScanning (handleDetection (\<lambda>u. u) 1500 1500 ''2026-01-01T00:00:01.500Z''
         \<lparr>getText = ''5901234123457'', getBarcodeFormat = Some ''EAN_13''\<rparr>
         (handleDetection (\<lambda>u. u) 1000 1000 ''2026-01-01T00:00:01.000Z''
            \<lparr>getText = ''5901234123457'', getBarcodeFormat = Some ''EAN_13''\<rparr>
            ((BarcodeScanner None None)\<lparr>isScanning := True\<rparr>)))
   \<and> detectionHistory (startScanning 9000 True FrameDrawn
        (handleDetection (\<lambda>u. u) 1500 1500 ''2026-01-01T00:00:01.500Z''
         \<lparr>getText = ''5901234123457'', getBarcodeFormat = Some ''EAN_13''\<rparr>
         (handleDetection (\<lambda>u. u) 1000 1000 ''2026-01-01T00:00:01.000Z''
            \<lparr>getText = ''5901234123457'', getBarcodeFormat = Some ''EAN_13''\<rparr>
            ((BarcodeScanner None None)\<lparr>isScanning := True\<rparr>)))) = []"
proof -
  let ?r = "\<lparr>getText = ''5901234123457'', getBarcodeFormat = Some ''EAN_13''\<rparr>"
  let ?s1 = "handleDetection (\<lambda>u. u) 1000 1000 ''2026-01-01T00:00:01.000Z'' ?r
      ((BarcodeScanner None None)\<lparr>isScanning := True\<rparr>)"
  let ?s2 = "handleDetection (\<lambda>u. u) 1500 1500 ''2026-01-01T00:00:01.500Z'' ?r ?s1"
  have confirmed: "confirmations ?s2 \<noteq> confirmations ?s1"
    by (simp add: handleDetection_confirmations handleDetection_detectionHistory
        handleDetection_settings BarcodeScanner_def defaultSettings_def formatOf_def)
  from confirm_window_cleared_on_restart [of "\<lambda>u. u" 1500 1500 "''2026-01-01T00:00:01.500Z''"
      ?r ?s1 9000 True FrameDrawn] confirmed
  show ?thesis by blast
qed

section \<open>Stopping the scan loop\<close>

lemma handleDetection_counters:
  "decodeAttempts (handleDetection enc t1 t2 stamp result s) = decodeAttempts s"
  "frameRequests (handleDetection enc t1 t2 stamp result s) = frameRequests s"
  by (simp_all add: handleDetection_def Let_def confirmDetection_keeps)

lemma stopScanning_counters:
  "decodeAttempts (stopScanning s) = decodeAttempts s"
  "frameRequests (stopScanning s) = frameRequests s"
  "\<not> isScanning (stopScanning s)"
  by (simp_all add: stopScanning_def)

lemma scanLoop_not_scanning: "\<not> isScanning s \<Longrightarrow> scanLoop fr s = s"
  by (simp add: scanLoop_def)

lemma scanLoop_continue_not_scanning:
  "\<not> isScanning s \<Longrightarrow>
     \<not> isScanning (scanLoop_continue s) \<and>
     decodeAttempts (scanLoop_continue s) = decodeAttempts s \<and>
     frameRequests (scanLoop_continue s) = frameRequests s"
  by (simp add: scanLoop_continue_def Let_def)

lemma scanLoop_resume_not_scanning:
  "\<not> isScanning s \<Longrightarrow>
     \<not> isScanning (scanLoop_resume enc t1 t2 stamp decoded s) \<and>
     decodeAttempts (scanLoop_resume enc t1 t2 stamp decoded s) = decodeAttempts s \<and>
     frameRequests (scanLoop_resume enc t1 t2 stamp decoded s) = frameRequests s"
  by (simp add: scanLoop_resume_def scanLoop_continue_not_scanning handleDetection_counters
      handleDetection_isScanning split: option.splits)

lemma step_not_scanning:
  "\<not> isScanning s \<Longrightarrow>
     \<not> isScanning (step enc e s) \<and>
     decodeAttempts (step enc e s) = decodeAttempts s \<and>
     frameRequests (step enc e s) = frameRequests s"
proof (cases e)
  case (AnimationFrame fr)
  assume "\<not> isScanning s"
  then show ?thesis
    by (simp add: AnimationFrame scanLoop_not_scanning)
next
  case (DecodeSettled decoded t1 t2 stamp)
  assume idle: "\<not> isScanning s"
  then have "\<not> isScanning (s\<lparr>pendingDecodes := pendingDecodes s - 1\<rparr>)"
    by simp
  from scanLoop_resume_not_scanning [OF this, of enc t1 t2 stamp decoded] idle
  show ?thesis
    by (simp add: DecodeSettled)
next
  case StopClicked
  assume "\<not> isScanning s"
  then show ?thesis
    by (simp add: StopClicked stopScanning_def)
qed

lemma run_not_scanning:
  "\<not> isScanning s \<Longrightarrow>
     \<not> isScanning (run enc evs s) \<and>
     decodeAttempts (run enc evs s) = decodeAttempts s \<and>
     frameRequests (run enc evs s) = frameRequests s"
proof (induction evs arbitrary: s)
  case Nil
  then show ?case by simp
next
  case (Cons e evs)
  from step_not_scanning [OF Cons.prems, of enc e]
  have idle: "\<not> isScanning (step enc e s)"
    and same: "decodeAttempts (step enc e s) = decodeAttempts s"
      "frameRequests (step enc e s) = frameRequests s"
    by simp_all
  from Cons.IH [OF idle] same show ?case by simp
qed

lemma step_request_scanning:
  "frameRequests (step enc e s) \<noteq> frameRequests s \<Longrightarrow> isScanning (step enc e s)"
proof (cases e)
  case (AnimationFrame fr)
  assume "frameRequests (step enc e s) \<noteq> frameRequests s"
  then show ?thesis
    by (cases fr) (auto simp add: AnimationFrame scanLoop_def scanLoop_continue_def
        requestFrame_def Let_def split: if_splits)
next
  case (DecodeSettled decoded t1 t2 stamp)
  assume "frameRequests (step enc e s) \<noteq> frameRequests s"
  then show ?thesis
    by (auto simp add: DecodeSettled scanLoop_resume_def scanLoop_continue_def
        requestFrame_def Let_def handleDetection_counters split: if_splits option.splits)
next
  case StopClicked
  assume "frameRequests (step enc e s) \<noteq> frameRequests s"
  then show ?thesis
    by (simp add: StopClicked stopScanning_counters)
qed

text \<open>
  Claim C5. \<open>stopScanning\<close> changes nothing when the scanner is not scanning, and
  applying it twice is the same as applying it once. A run of \<open>scanLoop\<close> that finds the
  flag cleared returns at once; a step that calls the decoder or requests an animation
  frame started with the flag set, and the flag is still set when the frame is requested.
  Hence after \<open>stopScanning\<close>, whatever callbacks, decoding results and stop clicks
  arrive, the decoder is not called again and no further animation frame is requested.
\<close>

theorem stopScanning_halts_scanLoop:
  "(\<not> isScanning s \<longrightarrow> stopScanning s = s)
   \<and> stopScanning (stopScanning s) = stopScanning s
   \<and> \<not> isScanning (stopScanning s)
   \<and> (\<not> isScanning s \<longrightarrow> scanLoop fr s = s)
   \<and> (decodeAttempts (step enc e s) \<noteq> decodeAttempts s \<longrightarrow> isScanning s)
   \<and> (frameRequests (step enc e s) \<noteq> frameRequests s \<longrightarrow>
        isScanning s \<and> isScanning (step enc e s))
   \<and> \<not> isScanning (run enc evs (stopScanning s))
   \<and> decodeAttempts (run enc evs (stopScanning s)) = decodeAttempts s
   \<and> frameRequests (run enc evs (stopScanning s)) = frameRequests s"
proof -
  have noop: "\<not> isScanning s \<longrightarrow> stopScanning s = s"
    by (simp add: stopScanning_def)
  have idem: "stopScanning (stopScanning s) = stopScanning s"
    by (simp add: stopScanning_def)
  have idle: "\<not> isScanning (stopScanning s)"
    by (rule stopScanning_counters)
  have entry: "\<not> isScanning s \<longrightarrow> scanLoop fr s = s"
    by (simp add: scanLoop_not_scanning)
  have decode: "decodeAttempts (step enc e s) \<noteq> decodeAttempts s \<longrightarrow> isScanning s"
    using step_not_scanning [of s enc e] by blast
  have request: "frameRequests (step enc e s) \<noteq> frameRequests s \<longrightarrow>
      isScanning s \<and> isScanning (step enc e s)"
    using step_not_scanning [of s enc e] step_request_scanning [of enc e s] by blast
  from run_not_scanning [OF idle, of enc evs]
  have after: "\<not> isScanning (run enc evs (stopScanning s))"
    "decodeAttempts (run enc evs (stopScanning s)) = decodeAttempts s"
    "frameRequests (run enc evs (stopScanning s)) = frameRequests s"
    by (simp_all add: stopScanning_counters)
  from noop idem idle entry decode request after show ?thesis by blast
qed

theorem stopScanning_halts_scanLoop_witness:
  "isScanning (startScanning 0 True FrameDrawn (BarcodeScanner None None))
   \<and> frameRequests (step (\<lambda>u. u) (AnimationFrame FrameDrawn)
        (startScanning 0 True FrameDrawn (BarcodeScanner None None))) \<noteq>
      frameRequests (startScanning 0 True FrameDrawn (BarcodeScanner None None))
   \<and> isScanning (step (\<lambda>u. u) (AnimationFrame FrameDrawn)
        (startScanning 0 True FrameDrawn (BarcodeScanner None None)))
   \<and> \<not> isScanning (stopScanning (startScanning 0 True FrameDrawn (BarcodeScanner None None)))
   \<and> scanLoop FrameDrawn (stopScanning (startScanning 0 True FrameDrawn (BarcodeScanner None None))) =
      stopScanning (startScanning 0 True FrameDrawn (BarcodeScanner None None))
   \<and> decodeAttempts (run (\<lambda>u. u)
        [AnimationFrame FrameDrawn, DecodeSettled None 10 10 ''2026-01-01T00:00:00.010Z'',
         AnimationFrame DrawError]
        (stopScanning (startScanning 0 True FrameDrawn (BarcodeScanner None None)))) =
      decodeAttempts (startScanning 0 True FrameDrawn (BarcodeScanner None None))
   \<and> frameRequests (run (\<lambda>u. u)
        [AnimationFrame FrameDrawn, DecodeSettled None 10 10 ''2026-01-01T00:00:00.010Z'',
         AnimationFrame DrawError]
        (stopScanning (startScanning 0 True FrameDrawn (BarcodeScanner None None)))) =
      frameRequests (startScanning 0 True FrameDrawn (BarcodeScanner None None))"
proof -
  let ?s = "startScanning 0 True FrameDrawn (BarcodeScanner None None)"
  let ?evs = "[AnimationFrame FrameDrawn, DecodeSettled None 10 10 ''2026-01-01T00:00:00.010Z'',
         AnimationFrame DrawError]"
  have rescheduled: "frameRequests (step (\<lambda>u. u) (AnimationFrame FrameDrawn) ?s) \<noteq> frameRequests ?s"
    by (simp add: startScanning_def scanLoop_def scanLoop_continue_def requestFrame_def
        BarcodeScanner_def Let_def)
  note running = stopScanning_halts_scanLoop [of ?s FrameDrawn "\<lambda>u. u" "AnimationFrame FrameDrawn" ?evs]
  from running have stopped: "\<not> isScanning (stopScanning ?s)"
    by blast
  note halted = stopScanning_halts_scanLoop [of "stopScanning ?s" FrameDrawn "\<lambda>u. u"
      "AnimationFrame FrameDrawn" ?evs]
  from halted stopped have "scanLoop FrameDrawn (stopScanning ?s) = stopScanning ?s"
    by blast
  with running rescheduled show ?thesis
    by blast
qed

section \<open>Product lookup and the head of the history\<close>

lemma displayProductInfo_scanHistory:
  "scanHistory (displayProductInfo enc (Some p) c s) =
     (case productInfo s of
        None \<Rightarrow> scanHistory s
      | Some _ \<Rightarrow>
          (case scanHistory s of
             [] \<Rightarrow> []
           | r # rs \<Rightarrow> r\<lparr>product := Some (name p)\<rparr> # rs))"
  by (simp add: displayProductInfo_def Let_def split: option.splits list.splits)

lemma displayProductInfo_productInfo:
  "productInfo (displayProductInfo enc (Some p) c s) =
     (case productInfo s of
        None \<Rightarrow> None
      | Some _ \<Rightarrow> Some (ProductCard p (productLinks enc p)))"
  by (simp add: displayProductInfo_def Let_def split: option.splits list.splits)

lemma searchProduct_resume_scanHistory:
  "scanHistory (searchProduct_resume enc found c s) =
     (case productInfo s of
        None \<Rightarrow> scanHistory s
      | Some _ \<Rightarrow>
          (case scanHistory s of
             [] \<Rightarrow> []
           | r # rs \<Rightarrow>
               r\<lparr>product :=
                   Some (name (case found of Some p \<Rightarrow> p | None \<Rightarrow> createFallbackResult enc c))\<rparr> # rs))"
  by (simp add: searchProduct_resume_def Let_def displayProductInfo_scanHistory
      split: option.splits)

lemma processScan_scanHistory:
  "scanHistory (processScan enc stamp c fmt s) =
     take 50 (\<lparr>code = c, format = fmt, timestamp = stamp,
                product = (if autoSearch (settings s) \<and> \<not> isValidUPCorEAN c \<and> productInfo s \<noteq> None
                           then Some (''Product Code: '' @ c) else None)\<rparr> # scanHistory s)"
  by (simp add: processScan_def Let_def searchProduct_def displayProductInfo_scanHistory
      showResults_def addToHistory_def createFallbackResult_def take_Cons'
      split: option.splits)

lemma confirmDetection_scanHistory:
  "scanHistory (confirmDetection enc stamp c fmt s) =
     take 50 (\<lparr>code = c, format = fmt, timestamp = stamp,
                product = (if autoSearch (settings s) \<and> \<not> isValidUPCorEAN c \<and> productInfo s \<noteq> None
                           then Some (''Product Code: '' @ c) else None)\<rparr> # scanHistory s)"
  by (simp add: confirmDetection_def processScan_scanHistory stopScanning_def)

lemma confirmDetection_lookup:
  "autoSearch (settings s) \<Longrightarrow> isValidUPCorEAN c \<Longrightarrow>
     pendingLookups (confirmDetection enc stamp c fmt s) = pendingLookups s @ [c] \<and>
     productInfo (confirmDetection enc stamp c fmt s) =
       (case productInfo s of None \<Rightarrow> None | Some _ \<Rightarrow> Some Loading)"
  by (simp add: confirmDetection_def processScan_def Let_def searchProduct_def showResults_def
      addToHistory_def stopScanning_def split: option.splits)

lemma searchProduct_resume_notFound_card:
  "productInfo s \<noteq> None \<Longrightarrow>
     productInfo (searchProduct_resume enc None c s) =
       Some (ProductCard (createFallbackResult enc c)
         [(''View Original'', ''https://www.google.com/search?q='' @ enc c @ ''+barcode+product''),
          (''Google Search'', ''https://www.google.com/search?q='' @ enc c @ ''+barcode+product''),
          (''Amazon Search'', ''https://www.amazon.com/s?k='' @ enc c),
          (''UPC Database'', ''https://www.upcitemdb.com/upc/'' @ enc c)])"
  by (auto simp add: searchProduct_resume_def Let_def displayProductInfo_productInfo
      productLinks_def createFallbackResult_def)

text \<open>
  Claim C6 as stated fails: with the scan of 4006381333931 at the head of the history,
  the lookup issued for the earlier scan 5901234123457 completes, and its product name is
  written into the head record, whose code is not the one looked up.
\<close>

theorem lookup_backfill_stale_counterexample:
  "code (hd (scanHistory ((BarcodeScanner None (Some
        [\<lparr>code = ''4006381333931'', format = ''EAN-13'',
          timestamp = ''2026-01-01T00:00:07.000Z'', product = None\<rparr>,
         \<lparr>code = ''5901234123457'', format = ''EAN-13'',
          timestamp = ''2026-01-01T00:00:05.000Z'', product = None\<rparr>]))
        \<lparr>pendingLookups := [''5901234123457'', ''4006381333931'']\<rparr>))) = ''4006381333931''
   \<and> ''4006381333931'' \<noteq> ''5901234123457''
   \<and> scanHistory (searchProduct_resume (\<lambda>u. u)
        (Some \<lparr>name = ''Milk chocolate'', brand = ''Unknown Brand'', description = [],
               image_url = None, source = ''Open Food Facts'',
               sourceUrl = ''https://world.openfoodfacts.org/product/5901234123457'',
               categories = [], nutritionGrades = None, labels = [], searchLinks = None\<rparr>)
        ''5901234123457''
        ((BarcodeScanner None (Some
        [\<lparr>code = ''4006381333931'', format = ''EAN-13'',
          timestamp = ''2026-01-01T00:00:07.000Z'', product = None\<rparr>,
         \<lparr>code = ''5901234123457'', format = ''EAN-13'',
          timestamp = ''2026-01-01T00:00:05.000Z'', product = None\<rparr>]))
        \<lparr>pendingLookups := [''5901234123457'', ''4006381333931'']\<rparr>)) =
      [\<lparr>code = ''4006381333931'', format = ''EAN-13'',
        timestamp = ''2026-01-01T00:00:07.000Z'', product = Some ''Milk chocolate''\<rparr>,
       \<lparr>code = ''5901234123457'', format = ''EAN-13'',
        timestamp = ''2026-01-01T00:00:05.000Z'', product = None\<rparr>]"
  by (simp add: searchProduct_resume_scanHistory BarcodeScanner_def)

text \<open>
  Claim C6, amended. When a product lookup completes, the history keeps its length and
  every record but the head; of the head record only the \<open>product\<close> field changes. It
  is set to the name of the displayed product whenever the page has the element
  \<open>productInfo\<close>, whether or not the head record carries the code that was looked up.
\<close>

theorem lookup_backfill_head_only:
  "length (scanHistory (searchProduct_resume enc found c s)) = length (scanHistory s)
   \<and> tl (scanHistory (searchProduct_resume enc found c s)) = tl (scanHistory s)
   \<and> (scanHistory s \<noteq> [] \<longrightarrow>
        hd (scanHistory (searchProduct_resume enc found c s)) =
          (hd (scanHistory s))\<lparr>product :=
             (if productInfo s = None then product (hd (scanHistory s))
              else Some (name (case found of Some p \<Rightarrow> p
                                | None \<Rightarrow> createFallbackResult enc c)))\<rparr>)"
  by (simp add: searchProduct_resume_scanHistory split: option.splits list.splits)

theorem lookup_backfill_head_only_witness:
  "scanHistory ((BarcodeScanner None (Some
        [\<lparr>code = ''4006381333931'', format = ''EAN-13'',
          timestamp = ''2026-01-01T00:00:07.000Z'', product = None\<rparr>,
         \<lparr>code = ''5901234123457'', format = ''EAN-13'',
          timestamp = ''2026-01-01T00:00:05.000Z'', product = None\<rparr>]))
        \<lparr>pendingLookups := [''5901234123457'', ''4006381333931'']\<rparr>) \<noteq> []
   \<and> hd (scanHistory (searchProduct_resume (\<lambda>u. u) None ''5901234123457''
        ((BarcodeScanner None (Some
        [\<lparr>code = ''4006381333931'', format = ''EAN-13'',
          timestamp = ''2026-01-01T00:00:07.000Z'', product = None\<rparr>,
         \<lparr>code = ''5901234123457'', format = ''EAN-13'',
          timestamp = ''2026-01-01T00:00:05.000Z'', product = None\<rparr>]))
        \<lparr>pendingLookups := [''5901234123457'', ''4006381333931'']\<rparr>))) =
      \<lparr>code = ''4006381333931'', format = ''EAN-13'',
        timestamp = ''2026-01-01T00:00:07.000Z'', product = Some ''Product Code: 5901234123457''\<rparr>
   \<and> tl (scanHistory (searchProduct_resume (\<lambda>u. u) None ''5901234123457''
        ((BarcodeScanner None (Some
        [\<lparr>code = ''4006381333931'', format = ''EAN-13'',
          timestamp = ''2026-01-01T00:00:07.000Z'', product = None\<rparr>,
         \<lparr>code = ''5901234123457'', format = ''EAN-13'',
          timestamp = ''2026-01-01T00:00:05.000Z'', product = None\<rparr>]))
        \<lparr>pendingLookups := [''5901234123457'', ''4006381333931'']\<rparr>))) =
      [\<lparr>code = ''5901234123457'', format = ''EAN-13'',
        timestamp = ''2026-01-01T00:00:05.000Z'', product = None\<rparr>]"
proof -
  let ?s = "(BarcodeScanner None (Some
        [\<lparr>code = ''4006381333931'', format = ''EAN-13'',
          timestamp = ''2026-01-01T00:00:07.000Z'', product = None\<rparr>,
         \<lparr>code = ''5901234123457'', format = ''EAN-13'',
          timestamp = ''2026-01-01T00:00:05.000Z'', product = None\<rparr>]))
        \<lparr>pendingLookups := [''5901234123457'', ''4006381333931'']\<rparr>"
  have hist: "scanHistory ?s =
        [\<lparr>code = ''4006381333931'', format = ''EAN-13'',
          timestamp = ''2026-01-01T00:00:07.000Z'', product = None\<rparr>,
         \<lparr>code = ''5901234123457'', format = ''EAN-13'',
          timestamp = ''2026-01-01T00:00:05.000Z'', product = None\<rparr>]"
    and page: "productInfo ?s = Some Blank"
    by (simp_all add: BarcodeScanner_def)
  have fallback: "name (createFallbackResult (\<lambda>u. u) ''5901234123457'') = ''Product Code: 5901234123457''"
    by (simp add: createFallbackResult_def)
  from lookup_backfill_head_only [of "\<lambda>u. u" None "''5901234123457''" ?s]
  show ?thesis
    by (simp add: hist page fallback)
qed

text \<open>
  Claim C7 as stated fails: after the scan 5901234123457 is confirmed and its lookup finds
  nothing, the head record of the history has the product \<open>Product Code: 5901234123457\<close>.
\<close>

theorem notFound_product_backfilled_counterexample:
  "pendingLookups (confirmDetection (\<lambda>u. u) ''2026-01-01T00:00:05.000Z'' ''5901234123457'' ''EAN-13''
      (BarcodeScanner None None)) = [''5901234123457'']
   \<and> scanHistory (searchProduct_resume (\<lambda>u. u) None ''5901234123457''
        (confirmDetection (\<lambda>u. u) ''2026-01-01T00:00:05.000Z'' ''5901234123457'' ''EAN-13''
           (BarcodeScanner None None))) =
      [\<lparr>code = ''5901234123457'', format = ''EAN-13'', timestamp = ''2026-01-01T00:00:05.000Z'',
        product = Some ''Product Code: 5901234123457''\<rparr>]"
proof -
  let ?s = "BarcodeScanner None None"
  have valid: "isValidUPCorEAN ''5901234123457''"
    by (simp add: isValidUPCorEAN_def isDigit_def)
  have auto: "autoSearch (settings ?s)" and page: "productInfo ?s = Some Blank"
    and empty: "scanHistory ?s = []" and none: "pendingLookups ?s = []"
    by (simp_all add: BarcodeScanner_def defaultSettings_def)
  from confirmDetection_lookup [OF auto valid, of "\<lambda>u. u" "''2026-01-01T00:00:05.000Z''" "''EAN-13''"]
  show ?thesis
    by (simp add: searchProduct_resume_scanHistory confirmDetection_scanHistory valid page empty
        none createFallbackResult_def)
qed

text \<open>
  Claim C7, amended. For a confirmed scan of a code of 8 to 14 digits, with
  \<open>autoSearch\<close> on and the element \<open>productInfo\<close> on the page, the lookup is issued and
  the new head record has no product yet. When the lookup finds nothing, the card shows
  the fallback result with its search links, and the product of the head record becomes
  the name of the fallback result, \<open>Product Code: \<close> followed by the code; the other
  records stay as they are.
\<close>

theorem notFound_fallback_card_and_backfill:
  "productInfo s \<noteq> None \<and> autoSearch (settings s) \<and> isValidUPCorEAN c \<longrightarrow>
     pendingLookups (confirmDetection enc stamp c fmt s) = pendingLookups s @ [c]
     \<and> hd (scanHistory (confirmDetection enc stamp c fmt s)) =
         \<lparr>code = c, format = fmt, timestamp = stamp, product = None\<rparr>
     \<and> productInfo (searchProduct_resume enc None c (confirmDetection enc stamp c fmt s)) =
         Some (ProductCard (createFallbackResult enc c)
           [(''View Original'', ''https://www.google.com/search?q='' @ enc c @ ''+barcode+product''),
            (''Google Search'', ''https://www.google.com/search?q='' @ enc c @ ''+barcode+product''),
            (''Amazon Search'', ''https://www.amazon.com/s?k='' @ enc c),
            (''UPC Database'', ''https://www.upcitemdb.com/upc/'' @ enc c)])
     \<and> hd (scanHistory (searchProduct_resume enc None c (confirmDetection enc stamp c fmt s))) =
         \<lparr>code = c, format = fmt, timestamp = stamp, product = Some (''Product Code: '' @ c)\<rparr>
     \<and> tl (scanHistory (searchProduct_resume enc None c (confirmDetection enc stamp c fmt s))) =
         tl (scanHistory (confirmDetection enc stamp c fmt s))"
proof
  let ?s1 = "confirmDetection enc stamp c fmt s"
  let ?s2 = "searchProduct_resume enc None c ?s1"
  assume h: "productInfo s \<noteq> None \<and> autoSearch (settings s) \<and> isValidUPCorEAN c"
  from h confirmDetection_lookup [of s c enc stamp fmt]
  have pending: "pendingLookups ?s1 = pendingLookups s @ [c]" and shown: "productInfo ?s1 \<noteq> None"
    by auto
  from h have hist1: "scanHistory ?s1 =
      take 50 (\<lparr>code = c, format = fmt, timestamp = stamp, product = None\<rparr> # scanHistory s)"
    by (simp add: confirmDetection_scanHistory)
  then have head1: "hd (scanHistory ?s1) = \<lparr>code = c, format = fmt, timestamp = stamp, product = None\<rparr>"
    by (simp add: take_Cons')
  from shown have card: "productInfo ?s2 =
         Some (ProductCard (createFallbackResult enc c)
           [(''View Original'', ''https://www.google.com/search?q='' @ enc c @ ''+barcode+product''),
            (''Google Search'', ''https://www.google.com/search?q='' @ enc c @ ''+barcode+product''),
            (''Amazon Search'', ''https://www.amazon.com/s?k='' @ enc c),
            (''UPC Database'', ''https://www.upcitemdb.com/upc/'' @ enc c)])"
    by (rule searchProduct_resume_notFound_card)
  from shown hist1 have hist2: "scanHistory ?s2 =
      \<lparr>code = c, format = fmt, timestamp = stamp, product = Some (''Product Code: '' @ c)\<rparr> #
        tl (scanHistory ?s1)"
    by (auto simp add: searchProduct_resume_scanHistory createFallbackResult_def take_Cons')
  from pending head1 card hist2
  show "pendingLookups ?s1 = pendingLookups s @ [c]
     \<and> hd (scanHistory ?s1) = \<lparr>code = c, format = fmt, timestamp = stamp, product = None\<rparr>
     \<and> productInfo ?s2 =
         Some (ProductCard (createFallbackResult enc c)
           [(''View Original'', ''https://www.google.com/search?q='' @ enc c @ ''+barcode+product''),
            (''Google Search'', ''https://www.google.com/search?q='' @ enc c @ ''+barcode+product''),
            (''Amazon Search'', ''https://www.amazon.com/s?k='' @ enc c),
            (''UPC Database'', ''https://www.upcitemdb.com/upc/'' @ enc c)])
     \<and> hd (scanHistory ?s2) =
         \<lparr>code = c, format = fmt, timestamp = stamp, product = Some (''Product Code: '' @ c)\<rparr>
     \<and> tl (scanHistory ?s2) = tl (scanHistory ?s1)"
    by simp
qed

theorem notFound_fallback_card_and_backfill_witness:
  "productInfo (BarcodeScanner None None) \<noteq> None
   \<and> autoSearch (settings (BarcodeScanner None None))
   \<and> isValidUPCorEAN ''5901234123457''
   \<and> productInfo (searchProduct_resume (\<lambda>u. u) None ''5901234123457''
        (confirmDetection (\<lambda>u. u) ''2026-01-01T00:00:05.000Z'' ''5901234123457'' ''EAN-13''
           (BarcodeScanner None None))) =
       Some (ProductCard (createFallbackResult (\<lambda>u. u) ''5901234123457'')
           [(''View Original'', ''https://www.google.com/search?q=5901234123457+barcode+product''),
            (''Google Search'', ''https://www.google.com/search?q=5901234123457+barcode+product''),
            (''Amazon Search'', ''https://www.amazon.com/s?k=5901234123457''),
            (''UPC Database'', ''https://www.upcitemdb.com/upc/5901234123457'')])
   \<and> hd (scanHistory (searchProduct_resume (\<lambda>u. u) None ''5901234123457''
        (confirmDetection (\<lambda>u. u) ''2026-01-01T00:00:05.000Z'' ''5901234123457'' ''EAN-13''
           (BarcodeScanner None None)))) =
      \<lparr>code = ''5901234123457'', format = ''EAN-13'', timestamp = ''2026-01-01T00:00:05.000Z'',
        product = Some ''Product Code: 5901234123457''\<rparr>"
proof -
  let ?s = "BarcodeScanner None None"
  have valid: "isValidUPCorEAN ''5901234123457''"
    by (simp add: isValidUPCorEAN_def isDigit_def)
  have auto: "autoSearch (settings ?s)" and page: "productInfo ?s \<noteq> None"
    by (simp_all add: BarcodeScanner_def defaultSettings_def)
  from notFound_fallback_card_and_backfill [of ?s "''5901234123457''" "\<lambda>u. u"
      "''2026-01-01T00:00:05.000Z''" "''EAN-13''"] valid auto page
  show ?thesis
    by simp
qed

section \<open>Manual entry of a code\<close>

lemma trim_Nil_iff: "trim str = [] \<longleftrightarrow> (\<forall>ch \<in> set str. isWhiteSpace ch)"
proof
  assume "trim str = []"
  then have all: "\<forall>ch \<in> set (dropWhile isWhiteSpace str). isWhiteSpace ch"
    by (simp add: trim_def)
  have "dropWhile isWhiteSpace str = []"
  proof (rule ccontr)
    assume ne: "dropWhile isWhiteSpace str \<noteq> []"
    then have "\<not> isWhiteSpace (hd (dropWhile isWhiteSpace str))"
      by (rule hd_dropWhile)
    moreover from ne have "hd (dropWhile isWhiteSpace str) \<in> set (dropWhile isWhiteSpace str)"
      by (rule hd_in_set)
    ultimately show False using all by blast
  qed
  then show "\<forall>ch \<in> set str. isWhiteSpace ch"
    by simp
next
  assume "\<forall>ch \<in> set str. isWhiteSpace ch"
  then have "dropWhile isWhiteSpace str = []"
    by simp
  then show "trim str = []"
    by (simp only: trim_def rev.simps dropWhile.simps)
qed

lemma dropWhile_hd_kept: "xs \<noteq> [] \<Longrightarrow> \<not> P (hd xs) \<Longrightarrow> dropWhile P xs = xs"
  by (cases xs) simp_all

lemma trim_clean:
  assumes "str \<noteq> []" and "\<not> isWhiteSpace (hd str)" and "\<not> isWhiteSpace (last str)"
  shows "trim str = str"
proof -
  from assms(1,2) have front: "dropWhile isWhiteSpace str = str"
    by (rule dropWhile_hd_kept)
  from assms(1,3) have "rev str \<noteq> []" and "\<not> isWhiteSpace (hd (rev str))"
    by (simp_all add: hd_rev)
  then have "dropWhile isWhiteSpace (rev str) = rev str"
    by (rule dropWhile_hd_kept)
  with front show ?thesis
    by (simp add: trim_def)
qed

text \<open>
  Claim C8. A code is blank after trimming exactly when it consists of white space only
  (the empty string included). For such a code in the manual entry form,
  \<open>submitManualCode\<close> reports \<open>EmptyCodeError\<close> and leaves the scanner as it was: no
  record is added to the history, nothing is confirmed and no lookup is issued.
\<close>

theorem submitManualCode_blank_rejected:
  "(trim codeInput = [] \<longleftrightarrow> (\<forall>ch \<in> set codeInput. isWhiteSpace ch))
   \<and> (manualCode s = Some codeInput \<and> manualFormat s = Some fmt \<and> trim codeInput = [] \<longrightarrow>
        submitManualCode enc stamp s = (Some EmptyCodeError, s))"
  by (simp add: trim_Nil_iff submitManualCode_def)

theorem submitManualCode_blank_rejected_witness:
  "manualCode ((BarcodeScanner None None)\<lparr>manualCode := Some [CHR 0x20, CHR 0x09, CHR 0x20]\<rparr>) =
      Some [CHR 0x20, CHR 0x09, CHR 0x20]
   \<and> manualFormat ((BarcodeScanner None None)\<lparr>manualCode := Some [CHR 0x20, CHR 0x09, CHR 0x20]\<rparr>) =
      Some ''UPC-A''
   \<and> trim [CHR 0x20, CHR 0x09, CHR 0x20] = []
   \<and> submitManualCode (\<lambda>u. u) ''2026-01-01T00:00:05.000Z''
        ((BarcodeScanner None None)\<lparr>manualCode := Some [CHR 0x20, CHR 0x09, CHR 0x20]\<rparr>) =
      (Some EmptyCodeError,
       (BarcodeScanner None None)\<lparr>manualCode := Some [CHR 0x20, CHR 0x09, CHR 0x20]\<rparr>)
   \<and> manualCode (BarcodeScanner None None) = Some []
   \<and> submitManualCode (\<lambda>u. u) ''2026-01-01T00:00:05.000Z'' (BarcodeScanner None None) =
      (Some EmptyCodeError, BarcodeScanner None None)"
proof -
  let ?s = "(BarcodeScanner None None)\<lparr>manualCode := Some [CHR 0x20, CHR 0x09, CHR 0x20]\<rparr>"
  have form: "manualCode ?s = Some [CHR 0x20, CHR 0x09, CHR 0x20]" "manualFormat ?s = Some ''UPC-A''"
    "manualCode (BarcodeScanner None None) = Some []"
    "manualFormat (BarcodeScanner None None) = Some ''UPC-A''"
    by (simp_all add: BarcodeScanner_def)
  have blank: "trim [CHR 0x20, CHR 0x09, CHR 0x20] = []" "trim [] = []"
    by (simp_all add: trim_def isWhiteSpace_def)
  from submitManualCode_blank_rejected [of "[CHR 0x20, CHR 0x09, CHR 0x20]" ?s "''UPC-A''" "\<lambda>u. u"
      "''2026-01-01T00:00:05.000Z''"] form blank
  have first: "submitManualCode (\<lambda>u. u) ''2026-01-01T00:00:05.000Z'' ?s = (Some EmptyCodeError, ?s)"
    by blast
  from submitManualCode_blank_rejected [of "[]" "BarcodeScanner None None" "''UPC-A''" "\<lambda>u. u"
      "''2026-01-01T00:00:05.000Z''"] form blank
  have second: "submitManualCode (\<lambda>u. u) ''2026-01-01T00:00:05.000Z'' (BarcodeScanner None None) =
      (Some EmptyCodeError, BarcodeScanner None None)"
    by blast
  from form blank first second show ?thesis
    by blast
qed

text \<open>
  Claim C9 as stated fails: for the non-blank code \<open>'' 42''\<close> the new head record does
  not carry that code but \<open>''42''\<close>, and with the default settings its product is already
  set when \<open>submitManualCode\<close> returns.
\<close>

theorem submitManualCode_trims_counterexample:
  "trim '' 42'' \<noteq> []
   \<and> fst (submitManualCode (\<lambda>u. u) ''2026-01-01T00:00:05.000Z''
        ((BarcodeScanner None None)\<lparr>manualCode := Some '' 42'', manualFormat := Some ''Code-128''\<rparr>)) = None
   \<and> code (hd (scanHistory (snd (submitManualCode (\<lambda>u. u) ''2026-01-01T00:00:05.000Z''
        ((BarcodeScanner None None)\<lparr>manualCode := Some '' 42'', manualFormat := Some ''Code-128''\<rparr>))))) = ''42''
   \<and> code (hd (scanHistory (snd (submitManualCode (\<lambda>u. u) ''2026-01-01T00:00:05.000Z''
        ((BarcodeScanner None None)\<lparr>manualCode := Some '' 42'', manualFormat := Some ''Code-128''\<rparr>))))) \<noteq> '' 42''
   \<and> product (hd (scanHistory (snd (submitManualCode (\<lambda>u. u) ''2026-01-01T00:00:05.000Z''
        ((BarcodeScanner None None)\<lparr>manualCode := Some '' 42'', manualFormat := Some ''Code-128''\<rparr>))))) =
      Some ''Product Code: 42''"
proof -
  have t: "trim '' 42'' = ''42''"
    by (simp add: trim_def isWhiteSpace_def)
  show ?thesis
    by (simp add: submitManualCode_def Let_def t processScan_scanHistory BarcodeScanner_def
        defaultSettings_def isValidUPCorEAN_def)
qed

text \<open>
  Claim C9, amended. For a code that is not blank after trimming, \<open>submitManualCode\<close>
  reports no failure and puts one new record at the head of the history (cut to 50
  entries). The record carries the trimmed code, which is the code itself when it
  neither starts nor ends with white space, the format of the form and the time stamp of
  \<open>toISOString\<close>. Its product is created as \<open>null\<close> and is still \<open>null\<close> on return,
  unless \<open>autoSearch\<close> is on, the page has the element \<open>productInfo\<close> and the code is
  not one of 8 to 14 digits: then the fallback name has been written already.
\<close>

theorem submitManualCode_prepends_record:
  "manualCode s = Some codeInput \<and> manualFormat s = Some fmt \<and> trim codeInput \<noteq> [] \<longrightarrow>
     fst (submitManualCode enc stamp s) = None
     \<and> scanHistory (snd (submitManualCode enc stamp s)) =
         take 50 (\<lparr>code = trim codeInput, format = fmt, timestamp = stamp,
                    product = (if autoSearch (settings s) \<and> \<not> isValidUPCorEAN (trim codeInput)
                                  \<and> productInfo s \<noteq> None
                               then Some (''Product Code: '' @ trim codeInput) else None)\<rparr>
                  # scanHistory s)
     \<and> (\<not> isWhiteSpace (hd codeInput) \<and> \<not> isWhiteSpace (last codeInput) \<longrightarrow>
          trim codeInput = codeInput)"
proof
  assume h: "manualCode s = Some codeInput \<and> manualFormat s = Some fmt \<and> trim codeInput \<noteq> []"
  then have ne: "codeInput \<noteq> []"
    by (auto simp add: trim_def)
  from h have ok: "fst (submitManualCode enc stamp s) = None"
    by (simp add: submitManualCode_def Let_def)
  from h have hist: "scanHistory (snd (submitManualCode enc stamp s)) =
      scanHistory (processScan enc stamp (trim codeInput) fmt s)"
    by (simp add: submitManualCode_def Let_def)
  from ne have clean: "\<not> isWhiteSpace (hd codeInput) \<and> \<not> isWhiteSpace (last codeInput) \<longrightarrow>
      trim codeInput = codeInput"
    by (simp add: trim_clean)
  from ok hist clean
  show "fst (submitManualCode enc stamp s) = None
     \<and> scanHistory (snd (submitManualCode enc stamp s)) =
         take 50 (\<lparr>code = trim codeInput, format = fmt, timestamp = stamp,
                    product = (if autoSearch (settings s) \<and> \<not> isValidUPCorEAN (trim codeInput)
                                  \<and> productInfo s \<noteq> None
                               then Some (''Product Code: '' @ trim codeInput) else None)\<rparr>
                  # scanHistory s)
     \<and> (\<not> isWhiteSpace (hd codeInput) \<and> \<not> isWhiteSpace (last codeInput) \<longrightarrow>
          trim codeInput = codeInput)"
    by (simp only: processScan_scanHistory simp_thms)
qed

theorem submitManualCode_prepends_record_witness:
  "manualCode ((BarcodeScanner None None)\<lparr>manualCode := Some ''012345678905''\<rparr>) = Some ''012345678905''
   \<and> manualFormat ((BarcodeScanner None None)\<lparr>manualCode := Some ''012345678905''\<rparr>) = Some ''UPC-A''
   \<and> trim ''012345678905'' \<noteq> []
   \<and> fst (submitManualCode (\<lambda>u. u) ''2026-01-01T00:00:05.000Z''
        ((BarcodeScanner None None)\<lparr>manualCode := Some ''012345678905''\<rparr>)) = None
   \<and> scanHistory (snd (submitManualCode (\<lambda>u. u) ''2026-01-01T00:00:05.000Z''
        ((BarcodeScanner None None)\<lparr>manualCode := Some ''012345678905''\<rparr>))) =
      [\<lparr>code = ''012345678905'', format = ''UPC-A'', timestamp = ''2026-01-01T00:00:05.000Z'',
        product = None\<rparr>]"
proof -
  let ?s = "(BarcodeScanner None None)\<lparr>manualCode := Some ''012345678905''\<rparr>"
  have form: "manualCode ?s = Some ''012345678905''" "manualFormat ?s = Some ''UPC-A''"
    and empty: "scanHistory ?s = []"
    by (simp_all add: BarcodeScanner_def)
  have t: "trim ''012345678905'' = ''012345678905''"
    by (simp add: trim_def isWhiteSpace_def)
  have valid: "isValidUPCorEAN ''012345678905''"
    by (simp add: isValidUPCorEAN_def isDigit_def)
  from submitManualCode_prepends_record [of ?s "''012345678905''" "''UPC-A''" "\<lambda>u. u"
      "''2026-01-01T00:00:05.000Z''"] form
  show ?thesis
    by (simp add: t valid empty)
qed

end
